theory Spec2Isabelle
  imports Complex_Main
begin

section \<open>Python values\<close>

text \<open>
  A Python \<open>float\<close> is a finite number, one of the two infinities, or NaN. Finite
  values are read as reals; the comparisons of the source only ever compare a float with
  a constant that is exact in binary (4.0, 5.0, 6.0, 7.0, 0), so they are exact here too.
\<close>

datatype pyfloat = Finite real | PosInf | NegInf | NaN

text \<open>\<open>x >= c\<close> for a finite constant \<open>c\<close>: every comparison with NaN is false.\<close>

fun float_ge :: "pyfloat \<Rightarrow> real \<Rightarrow> bool" where
  "float_ge (Finite x) c = (c \<le> x)"
| "float_ge PosInf c = True"
| "float_ge NegInf c = False"
| "float_ge NaN c = False"

text \<open>\<open>x < y\<close> and \<open>x <= y\<close> on two floats.\<close>

fun float_lt :: "pyfloat \<Rightarrow> pyfloat \<Rightarrow> bool" where
  "float_lt NaN y = False"
| "float_lt x NaN = False"
| "float_lt PosInf y = False"
| "float_lt x NegInf = False"
| "float_lt NegInf y = True"
| "float_lt x PosInf = True"
| "float_lt (Finite x) (Finite y) = (x < y)"

fun float_le :: "pyfloat \<Rightarrow> pyfloat \<Rightarrow> bool" where
  "float_le NaN y = False"
| "float_le x NaN = False"
| "float_le NegInf y = True"
| "float_le x PosInf = True"
| "float_le (Finite x) (Finite y) = (x \<le> y)"
| "float_le x y = False"

section \<open>JSON payloads, dictionaries and exceptions\<close>

text \<open>
  The tools pass decoded JSON around as Python values (\<^verbatim>\<open>Dict[str, Any]\<close>). A dictionary
  is an association list whose first binding of a key is the key's value. The decoder
  keeps an integer literal as an \<^verbatim>\<open>int\<close> of any size and reads any other number as a
  float.
\<close>

datatype json =
    JNull
  | JBool bool
  | JInt int
  | JNum pyfloat
  | JStr string
  | JArr "json list"
  | JObj "(string \<times> json) list"

text \<open>An exception is known by the name of its class; all of them derive from \<^verbatim>\<open>Exception\<close>.\<close>

datatype exn = Exn string

abbreviation TypeError :: exn where "TypeError \<equiv> Exn ''TypeError''"
abbreviation ValueError :: exn where "ValueError \<equiv> Exn ''ValueError''"
abbreviation KeyError :: exn where "KeyError \<equiv> Exn ''KeyError''"
abbreviation RuntimeError :: exn where "RuntimeError \<equiv> Exn ''RuntimeError''"
abbreviation ZeroDivisionError :: exn where "ZeroDivisionError \<equiv> Exn ''ZeroDivisionError''"

text \<open>A call that raises returns \<open>Inl\<close>; \<open>and_then\<close> runs the next statement otherwise.\<close>

definition and_then :: "exn + 'a \<Rightarrow> ('a \<Rightarrow> exn + 'b) \<Rightarrow> exn + 'b" where
  "and_then r k = (case r of Inl e \<Rightarrow> Inl e | Inr v \<Rightarrow> k v)"





text \<open>\<^verbatim>\<open>d[k]\<close> with a string key.\<close>

fun py_getitem :: "json \<Rightarrow> string \<Rightarrow> exn + json" where
  "py_getitem (JObj kvs) k = (case map_of kvs k of None \<Rightarrow> Inl KeyError | Some v \<Rightarrow> Inr v)"
| "py_getitem v k = Inl TypeError"





section \<open>Library functions the tools call\<close>

text \<open>
  What the tools call outside the repository is a parameter, and every result below
  holds for every choice of it. \<open>'g\<close> is the geometry type of shapely.
  \<^item> \<open>str_to_float\<close>, \<open>int_to_float\<close>: \<^verbatim>\<open>float(x)\<close> on a string and on an
    \<^verbatim>\<open>int\<close>; \<open>None\<close> when it raises (\<^verbatim>\<open>ValueError\<close>, and \<^verbatim>\<open>OverflowError\<close>
    for an integer beyond the range of a double).
  \<^item> \<open>round_double\<close>: the double that an exact quotient is rounded to.
  \<^item> \<open>shape\<close>, \<open>point_buffer\<close> (\<^verbatim>\<open>Point(lon, lat).buffer(deg)\<close>),
    \<open>unary_union\<close>, \<open>mapping\<close>, \<open>intersects\<close> (a prepared geometry against
    \<^verbatim>\<open>Point(lon, lat)\<close>): shapely. \<open>is_empty\<close> is shapely's \<^verbatim>\<open>is_empty\<close>; no tool
    calls it, the statements do.
  \<^item> \<open>set_order\<close>: the order in which \<^verbatim>\<open>list(a_set)\<close> lists the members.
  \<^item> \<open>str_to_num\<close>: pandas' \<^verbatim>\<open>to_numeric\<close> on a string cell, NaN when it cannot
    read it. \<open>series_sum\<close>: \<^verbatim>\<open>float(column.sum())\<close> on a column that is not empty.
    \<open>argsort_desc\<close>: the indexer that \<^verbatim>\<open>sort_values(ascending=False)\<close> computes from
    the key column with its default sorting algorithm: the positions of the rows in
    their new order.
\<close>

record 'g pylib =
  str_to_float :: "string \<Rightarrow> pyfloat option"
  int_to_float :: "int \<Rightarrow> pyfloat option"
  round_double :: "real \<Rightarrow> pyfloat"
  shape :: "json \<Rightarrow> exn + 'g"
  point_buffer :: "pyfloat \<Rightarrow> pyfloat \<Rightarrow> pyfloat \<Rightarrow> 'g"
  unary_union :: "'g list \<Rightarrow> exn + 'g"
  mapping :: "'g \<Rightarrow> json"
  intersects :: "'g \<Rightarrow> pyfloat \<Rightarrow> pyfloat \<Rightarrow> bool"
  is_empty :: "'g \<Rightarrow> bool"
  set_order :: "json list \<Rightarrow> json list"
  str_upper :: "string \<Rightarrow> string"
  str_strip :: "string \<Rightarrow> string"
  json_loads :: "string \<Rightarrow> exn + json"
  str_to_num :: "string \<Rightarrow> pyfloat"
  series_sum :: "pyfloat list \<Rightarrow> pyfloat"
  argsort_desc :: "pyfloat list \<Rightarrow> nat list"


text \<open>
  \<^verbatim>\<open>x / y\<close> on two floats: a zero divisor raises, the quotient of two finite values is
  rounded, and the rest follows the rules for infinities and NaN.
\<close>

fun py_truediv :: "'g pylib \<Rightarrow> pyfloat \<Rightarrow> pyfloat \<Rightarrow> exn + pyfloat" where
  "py_truediv lib x (Finite y) =
     (if y = 0 then Inl ZeroDivisionError
      else case x of
        Finite a \<Rightarrow> Inr (round_double lib (a / y))
      | PosInf \<Rightarrow> Inr (if 0 < y then PosInf else NegInf)
      | NegInf \<Rightarrow> Inr (if 0 < y then NegInf else PosInf)
      | NaN \<Rightarrow> Inr NaN)"
| "py_truediv lib x NaN = Inr NaN"
| "py_truediv lib (Finite a) y = Inr (Finite 0)"
| "py_truediv lib x y = Inr NaN"


text \<open>
  \<^verbatim>\<open>x == y\<close> on hashable values, as a set compares its members: numbers by value
  whatever their type (\<^verbatim>\<open>True == 1 == 1.0\<close>), NaN equal to nothing.
\<close>

fun num_value :: "json \<Rightarrow> real option" where
  "num_value (JBool b) = Some (if b then 1 else 0)"
| "num_value (JInt n) = Some (real_of_int n)"
| "num_value (JNum (Finite x)) = Some x"
| "num_value v = None"



section \<open>Seismic buffering (app/tools/earthquake\_tool.py)\<close>

text \<open>
  \<^verbatim>\<open>_buffer_km_for_mag(m)\<close>: the radius in kilometres, by the first threshold that
  the magnitude reaches.
\<close>

definition buffer_km_for_mag :: "pyfloat \<Rightarrow> real" where
  "buffer_km_for_mag m =
     (if float_ge m 7 then 200
      else if float_ge m 6 then 125
      else if float_ge m 5 then 75
      else if float_ge m 4 then 50
      else 25)"












section \<open>Weather alerts (app/tools/alerts\_tool.py)\<close>









section \<open>Portfolio exposure (app/tools/portfolio\_tool.py)\<close>

text \<open>
  A cell of the frame that \<^verbatim>\<open>pd.read_csv\<close> returns: a string, or a float, which is NaN
  where the value is missing. A row gives a cell for every column name.
\<close>

datatype cell = CStr string | CNum pyfloat

record dataframe =
  df_columns :: "string list"
  df_rows :: "(string \<Rightarrow> cell) list"

text \<open>A row after coercion; also the shape of an entry of \<^verbatim>\<open>top_exposed\<close>.\<close>

record asset =
  PropertyID :: cell
  Latitude :: pyfloat
  Longitude :: pyfloat
  TotalInsuredValue :: pyfloat

text \<open>The dataclass \<^verbatim>\<open>ExposureSummary\<close>.\<close>

record exposure_summary =
  portfolio_path :: string
  asset_count_total :: nat
  asset_count_exposed :: nat
  total_insured_value_total :: pyfloat
  total_insured_value_exposed :: pyfloat
  exposure_ratio :: pyfloat
  bounds :: "(pyfloat \<times> pyfloat \<times> pyfloat \<times> pyfloat) option"
  top_exposed :: "asset list"

text \<open>\<^verbatim>\<open>min(xs)\<close> and \<^verbatim>\<open>max(xs)\<close> on a list that is not empty: the first extreme item.\<close>

definition py_min :: "pyfloat list \<Rightarrow> pyfloat" where
  "py_min xs = foldl (\<lambda>m x. if float_lt x m then x else m) (hd xs) (tl xs)"

definition py_max :: "pyfloat list \<Rightarrow> pyfloat" where
  "py_max xs = foldl (\<lambda>m x. if float_lt m x then x else m) (hd xs) (tl xs)"

text \<open>\<^verbatim>\<open>_compute_bounds(latitudes, longitudes)\<close>.\<close>

definition compute_bounds ::
  "pyfloat list \<Rightarrow> pyfloat list \<Rightarrow> (pyfloat \<times> pyfloat \<times> pyfloat \<times> pyfloat) option" where
  "compute_bounds lats lons =
     (if lats = [] \<or> lons = [] then None
      else Some (py_min lons, py_min lats, py_max lons, py_max lats))"

definition required_columns :: "string list" where
  "required_columns = [''PropertyID'', ''Latitude'', ''Longitude'', ''TotalInsuredValue'']"

text \<open>\<^verbatim>\<open>pd.to_numeric(..., errors="coerce")\<close> on one cell.\<close>

definition to_numeric :: "'g pylib \<Rightarrow> cell \<Rightarrow> pyfloat" where
  "to_numeric lib c = (case c of CNum x \<Rightarrow> x | CStr s \<Rightarrow> str_to_num lib s)"

text \<open>
  The coercions and \<^verbatim>\<open>dropna(subset=["Latitude", "Longitude"])\<close> on one row: a NaN
  insured value becomes 0.0, a row with a NaN coordinate is dropped (\<open>None\<close>).
\<close>

definition coerce_row :: "'g pylib \<Rightarrow> (string \<Rightarrow> cell) \<Rightarrow> asset option" where
  "coerce_row lib r =
     (let la = to_numeric lib (r ''Latitude'');
          lo = to_numeric lib (r ''Longitude'');
          v = to_numeric lib (r ''TotalInsuredValue'')
      in if la = NaN \<or> lo = NaN then None
         else Some \<lparr> PropertyID = r ''PropertyID'', Latitude = la, Longitude = lo,
                     TotalInsuredValue = (if v = NaN then Finite 0 else v) \<rparr>)"

text \<open>The frame after the coercions: the rows that are scored.\<close>

definition load_assets :: "'g pylib \<Rightarrow> dataframe \<Rightarrow> asset list" where
  "load_assets lib df = List.map_filter (coerce_row lib) (df_rows df)"

text \<open>The rows that the point-in-polygon loop flags: the frame \<^verbatim>\<open>exposed_df\<close>.\<close>

definition exposed_rows :: "'g pylib \<Rightarrow> 'g \<Rightarrow> asset list \<Rightarrow> asset list" where
  "exposed_rows lib poly assets =
     filter (\<lambda>a. intersects lib poly (Longitude a) (Latitude a)) assets"

text \<open>\<^verbatim>\<open>float(column.sum())\<close>: the sum of an empty column is 0.0.\<close>

definition py_sum :: "'g pylib \<Rightarrow> pyfloat list \<Rightarrow> pyfloat" where
  "py_sum lib xs = (if xs = [] then Finite 0 else series_sum lib xs)"

text \<open>
  The body of \<^verbatim>\<open>compute_portfolio_exposure\<close> from the point-in-polygon loop on: the
  sums, the ranking, the bounds and the summary. When no row is left after the
  coercions, \<^verbatim>\<open>df["Exposed"] = []\<close> is not a column of booleans, so
  \<^verbatim>\<open>df[df["Exposed"]]\<close> selects no column and
  \<^verbatim>\<open>exposed_df["TotalInsuredValue"]\<close> raises \<^verbatim>\<open>KeyError\<close>. The ratio is divided only
  under the guard \<^verbatim>\<open>tiv_total > 0\<close>.
\<close>

definition summarise :: "'g pylib \<Rightarrow> string \<Rightarrow> asset list \<Rightarrow> 'g \<Rightarrow> exn + exposure_summary" where
  "summarise lib portfolio_csv assets poly =
     (let exposed_df = exposed_rows lib poly assets;
          tiv_total = py_sum lib (map TotalInsuredValue assets)
      in if assets = [] then Inl KeyError
         else
           let tiv_exposed = py_sum lib (map TotalInsuredValue exposed_df);
               top = map (\<lambda>i. exposed_df ! i)
                       (take 10 (argsort_desc lib (map TotalInsuredValue exposed_df)));
               bnds = (if exposed_df \<noteq> []
                       then compute_bounds (map Latitude exposed_df) (map Longitude exposed_df)
                       else None)
           in and_then
                (if float_lt (Finite 0) tiv_total then py_truediv lib tiv_exposed tiv_total
                 else Inr (Finite 0)) (\<lambda>ratio.
                Inr \<lparr> portfolio_path = portfolio_csv,
                      asset_count_total = length assets,
                      asset_count_exposed = length exposed_df,
                      total_insured_value_total = tiv_total,
                      total_insured_value_exposed = tiv_exposed,
                      exposure_ratio = ratio,
                      bounds = bnds,
                      top_exposed = top \<rparr>))"

text \<open>\<^verbatim>\<open>json.loads(cone_feature_json)\<close> when the argument is a string, the argument otherwise.\<close>

definition parse_cone :: "'g pylib \<Rightarrow> json \<Rightarrow> exn + json" where
  "parse_cone lib cone_feature_json =
     (case cone_feature_json of JStr s \<Rightarrow> json_loads lib s | v \<Rightarrow> Inr v)"

text \<open>
  \<^verbatim>\<open>compute_portfolio_exposure(portfolio_csv, cone_feature_json)\<close>. \<open>read_csv\<close> is
  \<^verbatim>\<open>pd.read_csv\<close> on the file system of the run. The columns are checked first, the
  footprint is looked at after the frame is coerced.
\<close>

definition compute_portfolio_exposure ::
  "'g pylib \<Rightarrow> (string \<Rightarrow> exn + dataframe) \<Rightarrow> string \<Rightarrow> json \<Rightarrow> exn + exposure_summary" where
  "compute_portfolio_exposure lib read_csv portfolio_csv cone_feature_json =
     and_then (read_csv portfolio_csv) (\<lambda>df.
       if \<not> set required_columns \<subseteq> set (df_columns df) then Inl ValueError
       else
         let assets = load_assets lib df in
         and_then (parse_cone lib cone_feature_json) (\<lambda>cone_feature.
         and_then (py_getitem cone_feature ''geometry'') (\<lambda>geom.
         and_then (shape lib geom) (\<lambda>poly.
           summarise lib portfolio_csv assets poly))))"

section \<open>An instance of the library, for evaluation\<close>

text \<open>
  To run the definitions on concrete inputs the library parameters need values. This
  instance knows the GeoJSON polygons that are axis-parallel rectangles, given as the
  closed ring of their corners from the lower left, counter-clockwise; a geometry is
  the list of its boxes \<open>(minx, miny, maxx, maxy)\<close>, and the empty list is the empty
  geometry (a Polygon without coordinates). On these shapely agrees: a point meets a
  rectangle when it lies in it, boundary included. A union is the concatenation. A
  buffered point is the square around it, where shapely gives a polygon inscribed in
  the disc. Arithmetic is exact up to the largest double and overflows beyond it.
  Strings of decimal digits are the numbers read from text.
\<close>

type_synonym boxes = "(real \<times> real \<times> real \<times> real) list"

definition DBL_OVERFLOW :: real where
  "DBL_OVERFLOW = 2 ^ 1024 - 2 ^ 970"

definition overflow :: "real \<Rightarrow> pyfloat" where
  "overflow x =
     (if DBL_OVERFLOW \<le> x then PosInf else if x \<le> - DBL_OVERFLOW then NegInf else Finite x)"

fun float_add :: "pyfloat \<Rightarrow> pyfloat \<Rightarrow> pyfloat" where
  "float_add (Finite x) (Finite y) = overflow (x + y)"
| "float_add NaN y = NaN"
| "float_add x NaN = NaN"
| "float_add PosInf NegInf = NaN"
| "float_add NegInf PosInf = NaN"
| "float_add PosInf y = PosInf"
| "float_add NegInf y = NegInf"
| "float_add x y = y"

definition point_json :: "real \<Rightarrow> real \<Rightarrow> json" where
  "point_json x y = JArr [JNum (Finite x), JNum (Finite y)]"

definition ring_json :: "real \<times> real \<times> real \<times> real \<Rightarrow> json" where
  "ring_json b = (case b of (x0, y0, x1, y1) \<Rightarrow>
     JArr [point_json x0 y0, point_json x1 y0, point_json x1 y1, point_json x0 y1, point_json x0 y0])"

definition point_of :: "json \<Rightarrow> (real \<times> real) option" where
  "point_of v =
     (case v of
        JArr [a, b] \<Rightarrow>
          (case (num_value a, num_value b) of (Some x, Some y) \<Rightarrow> Some (x, y) | _ \<Rightarrow> None)
      | _ \<Rightarrow> None)"

definition box_of_ring :: "json \<Rightarrow> (real \<times> real \<times> real \<times> real) option" where
  "box_of_ring v =
     (case v of
        JArr ps \<Rightarrow>
          (case those (map point_of ps) of
             Some [(x0, y0), (x1, y1), (x2, y2), (x3, y3), (x4, y4)] \<Rightarrow>
               (if x0 < x1 \<and> y0 < y2 \<and> y1 = y0 \<and> x2 = x1 \<and> x3 = x0 \<and> y3 = y2 \<and> x4 = x0 \<and> y4 = y0
                then Some (x0, y0, x1, y2) else None)
           | _ \<Rightarrow> None)
      | _ \<Rightarrow> None)"

definition polygon_boxes :: "json \<Rightarrow> boxes option" where
  "polygon_boxes c =
     (case c of
        JArr [] \<Rightarrow> Some []
      | JArr [ring] \<Rightarrow> (case box_of_ring ring of Some b \<Rightarrow> Some [b] | None \<Rightarrow> None)
      | _ \<Rightarrow> None)"

definition boxes_shape :: "json \<Rightarrow> exn + boxes" where
  "boxes_shape v =
     (case (py_getitem v ''type'', py_getitem v ''coordinates'') of
        (Inr (JStr t), Inr c) \<Rightarrow>
          (if t = ''Polygon'' then
             (case polygon_boxes c of Some bs \<Rightarrow> Inr bs | None \<Rightarrow> Inl ValueError)
           else if t = ''MultiPolygon'' then
             (case c of
                JArr ps \<Rightarrow>
                  (case those (map polygon_boxes ps) of
                     Some bss \<Rightarrow> Inr (concat bss)
                   | None \<Rightarrow> Inl ValueError)
              | _ \<Rightarrow> Inl ValueError)
           else Inl ValueError)
      | _ \<Rightarrow> Inl ValueError)"

definition boxes_mapping :: "boxes \<Rightarrow> json" where
  "boxes_mapping bs =
     (case bs of
        [] \<Rightarrow> JObj [(''type'', JStr ''Polygon''), (''coordinates'', JArr [])]
      | [b] \<Rightarrow> JObj [(''type'', JStr ''Polygon''), (''coordinates'', JArr [ring_json b])]
      | _ \<Rightarrow> JObj [(''type'', JStr ''MultiPolygon''),
                      (''coordinates'', JArr (map (\<lambda>b. JArr [ring_json b]) bs))])"

definition boxes_buffer :: "pyfloat \<Rightarrow> pyfloat \<Rightarrow> pyfloat \<Rightarrow> boxes" where
  "boxes_buffer lon lat deg =
     (case (lon, lat, deg) of
        (Finite x, Finite y, Finite d) \<Rightarrow> [(x - d, y - d, x + d, y + d)]
      | _ \<Rightarrow> [])"

definition boxes_intersects :: "boxes \<Rightarrow> pyfloat \<Rightarrow> pyfloat \<Rightarrow> bool" where
  "boxes_intersects bs lon lat =
     (case (lon, lat) of
        (Finite x, Finite y) \<Rightarrow>
          list_ex (\<lambda>b. case b of (x0, y0, x1, y1) \<Rightarrow> x0 \<le> x \<and> x \<le> x1 \<and> y0 \<le> y \<and> y \<le> y1) bs
      | _ \<Rightarrow> False)"

definition is_digit :: "char \<Rightarrow> bool" where
  "is_digit c = (48 \<le> (of_char c :: nat) \<and> (of_char c :: nat) \<le> 57)"

definition digits_to_float :: "string \<Rightarrow> pyfloat option" where
  "digits_to_float s =
     (if s \<noteq> [] \<and> list_all is_digit s
      then Some (Finite (real (foldl (\<lambda>n c. 10 * n + (of_char c - 48)) 0 s)))
      else None)"

definition ascii_upper :: "char \<Rightarrow> char" where
  "ascii_upper c =
     (if 97 \<le> (of_char c :: nat) \<and> (of_char c :: nat) \<le> 122
      then char_of ((of_char c :: nat) - 32) else c)"

definition strip_spaces :: "string \<Rightarrow> string" where
  "strip_spaces s = rev (dropWhile (\<lambda>c. c = CHR '' '') (rev (dropWhile (\<lambda>c. c = CHR '' '') s)))"

text \<open>
  Two ways to rank keys in descending order, by insertion from the left. The first
  puts a row after the rows of equal key that came before it, so equal keys stay in
  input order. The second puts it before them: the same keys in the same descending
  order, with equal keys in reverse input order.
\<close>

fun insert_after_ties :: "pyfloat list \<Rightarrow> nat \<Rightarrow> nat list \<Rightarrow> nat list" where
  "insert_after_ties ks i [] = [i]"
| "insert_after_ties ks i (j # js) =
     (if float_lt (ks ! j) (ks ! i) then i # j # js else j # insert_after_ties ks i js)"

fun insert_before_ties :: "pyfloat list \<Rightarrow> nat \<Rightarrow> nat list \<Rightarrow> nat list" where
  "insert_before_ties ks i [] = [i]"
| "insert_before_ties ks i (j # js) =
     (if float_le (ks ! j) (ks ! i) then i # j # js else j # insert_before_ties ks i js)"

definition stable_argsort_desc :: "pyfloat list \<Rightarrow> nat list" where
  "stable_argsort_desc ks = foldl (\<lambda>acc i. insert_after_ties ks i acc) [] [0..<length ks]"

definition tie_reversing_argsort :: "pyfloat list \<Rightarrow> nat list" where
  "tie_reversing_argsort ks = foldl (\<lambda>acc i. insert_before_ties ks i acc) [] [0..<length ks]"

definition box_lib :: "boxes pylib" where
  "box_lib = \<lparr>
     str_to_float = digits_to_float,
     int_to_float = (\<lambda>n. if \<bar>real_of_int n\<bar> < DBL_OVERFLOW then Some (Finite (real_of_int n)) else None),
     round_double = overflow,
     shape = boxes_shape,
     point_buffer = boxes_buffer,
     unary_union = (\<lambda>gs. Inr (concat gs)),
     mapping = boxes_mapping,
     intersects = boxes_intersects,
     is_empty = (\<lambda>bs. bs = []),
     set_order = (\<lambda>xs. xs),
     str_upper = map ascii_upper,
     str_strip = strip_spaces,
     json_loads = (\<lambda>s. Inl ValueError),
     str_to_num = (\<lambda>s. case digits_to_float s of Some x \<Rightarrow> x | None \<Rightarrow> NaN),
     series_sum = foldl float_add (Finite 0),
     argsort_desc = stable_argsort_desc \<rparr>"

text \<open>The same library with the other ranking.\<close>

definition tie_reversing_lib :: "boxes pylib" where
  "tie_reversing_lib = box_lib \<lparr> argsort_desc := tie_reversing_argsort \<rparr>"

section \<open>Concrete inputs\<close>

text \<open>
  Frames and footprints: a row from its cells (a missing cell is NaN), a footprint
  Feature over boxes, and portfolios as \<^verbatim>\<open>read_csv\<close> builds them: a column holds
  floats, or strings and NaN.
\<close>

definition row_of :: "(string \<times> cell) list \<Rightarrow> string \<Rightarrow> cell" where
  "row_of kvs c = (case map_of kvs c of Some v \<Rightarrow> v | None \<Rightarrow> CNum NaN)"

definition footprint_of :: "boxes \<Rightarrow> json" where
  "footprint_of bs = JObj [
     (''type'', JStr ''Feature''),
     (''geometry'', boxes_mapping bs),
     (''properties'', JObj [(''source'', JStr ''synthetic'')])]"

definition portfolio_three :: dataframe where
  "portfolio_three = \<lparr>
     df_columns = [''PropertyID'', ''Name'', ''Latitude'', ''Longitude'', ''TotalInsuredValue''],
     df_rows = [
       row_of [(''PropertyID'', CStr ''A1''), (''Latitude'', CNum (Finite (51 / 2))),
               (''Longitude'', CNum (Finite (- (161 / 2)))), (''TotalInsuredValue'', CNum (Finite 1000))],
       row_of [(''PropertyID'', CStr ''A2''), (''Latitude'', CNum (Finite 40)),
               (''Longitude'', CNum (Finite (- 100))), (''TotalInsuredValue'', CNum (Finite 2000))],
       row_of [(''PropertyID'', CStr ''A3''), (''Latitude'', CNum (Finite 10)),
               (''Longitude'', CNum (Finite 10)), (''TotalInsuredValue'', CNum NaN)]] \<rparr>"

definition portfolio_no_tiv :: dataframe where
  "portfolio_no_tiv = \<lparr>
     df_columns = [''PropertyID'', ''Latitude'', ''Longitude''],
     df_rows = [
       row_of [(''PropertyID'', CStr ''A1''), (''Latitude'', CNum (Finite (51 / 2))),
               (''Longitude'', CNum (Finite (- (161 / 2))))]] \<rparr>"

section \<open>Predicates used in the statements\<close>



section \<open>Feeds used for evaluation\<close>











section \<open>Predicates on portfolios\<close>


text \<open>
  An insured value that is finite and not negative; the real number a finite float stands
  for; and the sum of a column computed without rounding or overflow.
\<close>

definition finite_nonneg :: "pyfloat \<Rightarrow> bool" where
  "finite_nonneg x = (case x of Finite v \<Rightarrow> 0 \<le> v | _ \<Rightarrow> False)"

definition real_of :: "pyfloat \<Rightarrow> real" where
  "real_of x = (case x of Finite v \<Rightarrow> v | _ \<Rightarrow> 0)"

definition exact_sum :: "pyfloat list \<Rightarrow> pyfloat" where
  "exact_sum xs = Finite (sum_list (map real_of xs))"

section \<open>Portfolios used for evaluation\<close>

text \<open>
  Frames as \<^verbatim>\<open>read_csv\<close> builds them: a portfolio whose insured values are 0 or missing;
  one with two assets insured for \<open>2 ^ 1023\<close> each (about 8.99e307, a double); one whose
  latitude column holds text, so that all its cells are strings, and whose longitude column
  has a missing value; one whose asset lies at latitude 1000, longitude 500; and one in
  which no row has both coordinates.
\<close>

definition portfolio_zero :: dataframe where
  "portfolio_zero = \<lparr>
     df_columns = [''PropertyID'', ''Latitude'', ''Longitude'', ''TotalInsuredValue''],
     df_rows = [
       row_of [(''PropertyID'', CStr ''Z1''), (''Latitude'', CNum (Finite (51 / 2))),
               (''Longitude'', CNum (Finite (- (161 / 2)))), (''TotalInsuredValue'', CNum (Finite 0))],
       row_of [(''PropertyID'', CStr ''Z2''), (''Latitude'', CNum (Finite 40)),
               (''Longitude'', CNum (Finite (- 100))), (''TotalInsuredValue'', CNum NaN)]] \<rparr>"

definition portfolio_huge :: dataframe where
  "portfolio_huge = \<lparr>
     df_columns = [''PropertyID'', ''Latitude'', ''Longitude'', ''TotalInsuredValue''],
     df_rows = [
       row_of [(''PropertyID'', CStr ''H1''), (''Latitude'', CNum (Finite (51 / 2))),
               (''Longitude'', CNum (Finite (- (161 / 2)))),
               (''TotalInsuredValue'', CNum (Finite (2 ^ 1023)))],
       row_of [(''PropertyID'', CStr ''H2''), (''Latitude'', CNum (Finite (103 / 4))),
               (''Longitude'', CNum (Finite (- (321 / 4)))),
               (''TotalInsuredValue'', CNum (Finite (2 ^ 1023)))]] \<rparr>"




section \<open>Properties\<close>

subsection \<open>The buffer radius\<close>

lemma buffer_km_range: "buffer_km_for_mag m \<in> {25, 50, 75, 125, 200}"
  by (simp add: buffer_km_for_mag_def)

lemma buffer_km_mono_aux:
  assumes "float_le a b"
  shows "buffer_km_for_mag a \<le> buffer_km_for_mag b"
proof (cases a)
  case (Finite x)
  show ?thesis
  proof (cases b)
    case (Finite y)
    with \<open>a = Finite x\<close> assms have "x \<le> y" by simp
    then show ?thesis
      unfolding \<open>a = Finite x\<close> \<open>b = Finite y\<close> buffer_km_for_mag_def by auto
  next
    case PosInf
    then show ?thesis
      unfolding \<open>a = Finite x\<close> buffer_km_for_mag_def by auto
  next
    case NegInf
    with \<open>a = Finite x\<close> assms show ?thesis by simp
  next
    case NaN
    with \<open>a = Finite x\<close> assms show ?thesis by simp
  qed
next
  case PosInf
  with assms have "b = PosInf" by (cases b) simp_all
  with PosInf show ?thesis by simp
next
  case NegInf
  then show ?thesis by (cases b) (auto simp: buffer_km_for_mag_def)
next
  case NaN
  with assms show ?thesis by simp
qed

text \<open>
  C8. For every magnitude the radius is the step function 200 km from 7.0, 125 km on
  [6.0, 7.0), 75 km on [5.0, 6.0), 50 km on [4.0, 5.0) and 25 km otherwise (below 4.0,
  and for NaN, which no comparison accepts); hence the radius never decreases when the
  magnitude grows.
\<close>

theorem buffer_km_step_function:
  "(7 \<le> m \<longrightarrow> buffer_km_for_mag (Finite m) = 200) \<and>
   (6 \<le> m \<and> m < 7 \<longrightarrow> buffer_km_for_mag (Finite m) = 125) \<and>
   (5 \<le> m \<and> m < 6 \<longrightarrow> buffer_km_for_mag (Finite m) = 75) \<and>
   (4 \<le> m \<and> m < 5 \<longrightarrow> buffer_km_for_mag (Finite m) = 50) \<and>
   (m < 4 \<longrightarrow> buffer_km_for_mag (Finite m) = 25) \<and>
   buffer_km_for_mag PosInf = 200 \<and>
   buffer_km_for_mag NegInf = 25 \<and>
   buffer_km_for_mag NaN = 25 \<and>
   (float_le a b \<longrightarrow> buffer_km_for_mag a \<le> buffer_km_for_mag b)"
  using buffer_km_mono_aux [of a b] by (simp add: buffer_km_for_mag_def)

theorem buffer_km_step_function_witness:
  "buffer_km_for_mag (Finite 7) = 200 \<and>
   buffer_km_for_mag (Finite (13 / 2)) = 125 \<and>
   buffer_km_for_mag (Finite (9 / 2)) = 50 \<and>
   float_le (Finite (9 / 2)) (Finite (13 / 2)) \<and>
   buffer_km_for_mag (Finite (9 / 2)) \<le> buffer_km_for_mag (Finite (13 / 2))"
proof -
  have a: "buffer_km_for_mag (Finite 7) = 200"
    using buffer_km_step_function [of 7 NaN NaN] by simp
  have b: "buffer_km_for_mag (Finite (13 / 2)) = 125"
    using buffer_km_step_function [of "13 / 2" NaN NaN] by simp
  have c: "buffer_km_for_mag (Finite (9 / 2)) = 50"
    using buffer_km_step_function [of "9 / 2" NaN NaN] by simp
  have d: "float_le (Finite (9 / 2)) (Finite (13 / 2))" by simp
  have e: "buffer_km_for_mag (Finite (9 / 2)) \<le> buffer_km_for_mag (Finite (13 / 2))"
    using buffer_km_step_function [of 0 "Finite (9 / 2)" "Finite (13 / 2)"] d by blast
  from a b c d e show ?thesis by blast
qed

subsection \<open>Sequencing\<close>

lemma and_then_Inr [simp]: "and_then (Inr v) k = k v"
  by (simp add: and_then_def)

lemma and_then_Inl [simp]: "and_then (Inl e) k = Inl e"
  by (simp add: and_then_def)


subsection \<open>Errors of the exposure computation\<close>

text \<open>
  C3 (amended). The exposure computation raises \<^verbatim>\<open>ValueError\<close> whenever the portfolio
  loads but lacks one of the required columns, whatever the footprint; when the file
  cannot be read or parsed, the reader's own exception leaves the function unchanged;
  invoked with an absent footprint (\<^verbatim>\<open>None\<close>) on a portfolio that has the four
  columns it raises \<^verbatim>\<open>TypeError\<close>. No \<^verbatim>\<open>DataError\<close> or
  \<^verbatim>\<open>ConfigurationError\<close> is raised anywhere.
\<close>

theorem exposure_error_types:
  "(read_csv p = Inl e \<longrightarrow> compute_portfolio_exposure lib read_csv p cone = Inl e) \<and>
   (read_csv p = Inr df \<and> \<not> set required_columns \<subseteq> set (df_columns df) \<longrightarrow>
      compute_portfolio_exposure lib read_csv p cone = Inl ValueError) \<and>
   (read_csv p = Inr df \<and> set required_columns \<subseteq> set (df_columns df) \<longrightarrow>
      compute_portfolio_exposure lib read_csv p JNull = Inl TypeError)"
  by (simp add: compute_portfolio_exposure_def parse_cone_def)

theorem exposure_error_types_witness:
  "compute_portfolio_exposure box_lib (\<lambda>p. Inl (Exn ''ParserError'')) ''p.csv''
      (footprint_of [(- 81, 25, - 80, 26)]) = Inl (Exn ''ParserError'') \<and>
   compute_portfolio_exposure box_lib (\<lambda>p. Inr portfolio_no_tiv) ''p.csv''
      (footprint_of [(- 81, 25, - 80, 26)]) = Inl ValueError \<and>
   compute_portfolio_exposure box_lib (\<lambda>p. Inr portfolio_three) ''p.csv'' JNull = Inl TypeError"
proof -
  have a: "compute_portfolio_exposure box_lib (\<lambda>p. Inl (Exn ''ParserError'')) ''p.csv''
      (footprint_of [(- 81, 25, - 80, 26)]) = Inl (Exn ''ParserError'')"
    using exposure_error_types
      [of "\<lambda>p. Inl (Exn ''ParserError'')" "''p.csv''" "Exn ''ParserError''" box_lib
          "footprint_of [(- 81, 25, - 80, 26)]" portfolio_three]
    by simp
  have b: "compute_portfolio_exposure box_lib (\<lambda>p. Inr portfolio_no_tiv) ''p.csv''
      (footprint_of [(- 81, 25, - 80, 26)]) = Inl ValueError"
    using exposure_error_types
      [of "\<lambda>p. Inr portfolio_no_tiv" "''p.csv''" "Exn ''ParserError''" box_lib
          "footprint_of [(- 81, 25, - 80, 26)]" portfolio_no_tiv]
    by (simp add: required_columns_def portfolio_no_tiv_def)
  have c: "compute_portfolio_exposure box_lib (\<lambda>p. Inr portfolio_three) ''p.csv'' JNull = Inl TypeError"
    using exposure_error_types
      [of "\<lambda>p. Inr portfolio_three" "''p.csv''" "Exn ''ParserError''" box_lib
          "footprint_of [(- 81, 25, - 80, 26)]" portfolio_three]
    by (simp add: required_columns_def portfolio_three_def)
  from a b c show ?thesis by simp
qed

theorem exposure_error_types_counterexample:
  "compute_portfolio_exposure box_lib (\<lambda>p. Inr portfolio_no_tiv) ''p.csv''
      (footprint_of [(- 81, 25, - 80, 26)]) \<noteq> Inl (Exn ''DataError'') \<and>
   compute_portfolio_exposure box_lib (\<lambda>p. Inr portfolio_three) ''p.csv'' JNull
      \<noteq> Inl (Exn ''ConfigurationError'') \<and>
   compute_portfolio_exposure box_lib (\<lambda>p. Inr portfolio_no_tiv) ''p.csv'' JNull = Inl ValueError"
  by (simp add: compute_portfolio_exposure_def parse_cone_def required_columns_def
      portfolio_no_tiv_def portfolio_three_def)

subsection \<open>Facts about the seismic loop\<close>








subsection \<open>Facts about the instance\<close>

lemma box_lib_fields:
  "str_to_float box_lib = digits_to_float"
  "round_double box_lib = overflow"
  "shape box_lib = boxes_shape"
  "point_buffer box_lib = boxes_buffer"
  "unary_union box_lib = (\<lambda>gs. Inr (concat gs))"
  "mapping box_lib = boxes_mapping"
  "intersects box_lib = boxes_intersects"
  "is_empty box_lib = (\<lambda>bs. bs = [])"
  "set_order box_lib = (\<lambda>xs. xs)"
  "str_upper box_lib = map ascii_upper"
  "str_strip box_lib = strip_spaces"
  "json_loads box_lib = (\<lambda>s. Inl ValueError)"
  "str_to_num box_lib = (\<lambda>s. case digits_to_float s of Some x \<Rightarrow> x | None \<Rightarrow> NaN)"
  "series_sum box_lib = foldl float_add (Finite 0)"
  "argsort_desc box_lib = stable_argsort_desc"
  by (simp_all add: box_lib_def)

lemma DBL_OVERFLOW_big: "10 ^ 300 < DBL_OVERFLOW"
  by (simp add: DBL_OVERFLOW_def)




lemma overflow_small: "\<bar>x\<bar> \<le> 10 ^ 300 \<Longrightarrow> overflow x = Finite x"
  using DBL_OVERFLOW_big by (auto simp: overflow_def)

subsection \<open>A seismic point without a usable magnitude\<close>




subsection \<open>Facts about the alert loop\<close>










subsection \<open>The hazard footprint\<close>




subsection \<open>Facts about the exposure computation\<close>

lemma compute_portfolio_exposure_value:
  assumes "read_csv p = Inr df"
    and "set required_columns \<subseteq> set (df_columns df)"
    and "parse_cone lib cone = Inr cf"
    and "py_getitem cf ''geometry'' = Inr geom"
    and "shape lib geom = Inr poly"
  shows "compute_portfolio_exposure lib read_csv p cone = summarise lib p (load_assets lib df) poly"
  using assms by (simp add: compute_portfolio_exposure_def Let_def)

lemma py_truediv_guarded:
  "float_lt (Finite 0) t \<Longrightarrow> \<exists>r. py_truediv lib x t = Inr r"
  by (cases t; cases x) auto


lemma summarise_value:
  assumes "assets \<noteq> []"
  shows "\<exists>ratio.
     summarise lib p assets poly =
       Inr \<lparr> portfolio_path = p,
             asset_count_total = length assets,
             asset_count_exposed = length (exposed_rows lib poly assets),
             total_insured_value_total = py_sum lib (map TotalInsuredValue assets),
             total_insured_value_exposed = py_sum lib (map TotalInsuredValue (exposed_rows lib poly assets)),
             exposure_ratio = ratio,
             bounds = (if exposed_rows lib poly assets \<noteq> []
                       then compute_bounds (map Latitude (exposed_rows lib poly assets))
                              (map Longitude (exposed_rows lib poly assets))
                       else None),
             top_exposed = map (\<lambda>i. exposed_rows lib poly assets ! i)
                       (take 10 (argsort_desc lib (map TotalInsuredValue (exposed_rows lib poly assets)))) \<rparr> \<and>
     (if float_lt (Finite 0) (py_sum lib (map TotalInsuredValue assets))
      then py_truediv lib (py_sum lib (map TotalInsuredValue (exposed_rows lib poly assets)))
             (py_sum lib (map TotalInsuredValue assets)) = Inr ratio
      else ratio = Finite 0)"
proof (cases "float_lt (Finite 0) (py_sum lib (map TotalInsuredValue assets))")
  case True
  from py_truediv_guarded [OF True] obtain r where
    "py_truediv lib (py_sum lib (map TotalInsuredValue (exposed_rows lib poly assets)))
             (py_sum lib (map TotalInsuredValue assets)) = Inr r" by blast
  with True assms show ?thesis
    by (simp add: summarise_def Let_def)
next
  case False
  with assms show ?thesis
    by (simp add: summarise_def Let_def)
qed

lemma sum_list_filter_le:
  fixes f :: "'a \<Rightarrow> real"
  assumes "\<forall>x\<in>set xs. 0 \<le> f x"
  shows "sum_list (map f (filter P xs)) \<le> sum_list (map f xs)"
  using assms by (induction xs) auto

lemma sum_list_map_nonneg:
  fixes f :: "'a \<Rightarrow> real"
  assumes "\<forall>x\<in>set xs. 0 \<le> f x"
  shows "0 \<le> sum_list (map f xs)"
  using assms by (induction xs) auto

lemma finite_nonneg_real_of: "finite_nonneg x \<Longrightarrow> 0 \<le> real_of x"
  by (cases x) (simp_all add: finite_nonneg_def real_of_def)

lemma exact_sums_ordered:
  assumes "list_all finite_nonneg (map TotalInsuredValue assets)"
  shows "0 \<le> sum_list (map real_of (map TotalInsuredValue (exposed_rows lib poly assets)))"
    and "sum_list (map real_of (map TotalInsuredValue (exposed_rows lib poly assets)))
           \<le> sum_list (map real_of (map TotalInsuredValue assets))"
proof -
  from assms have nn: "\<forall>a\<in>set assets. 0 \<le> real_of (TotalInsuredValue a)"
    by (auto simp: list_all_iff finite_nonneg_real_of)
  then have "\<forall>a\<in>set (exposed_rows lib poly assets). 0 \<le> real_of (TotalInsuredValue a)"
    by (auto simp: exposed_rows_def)
  from sum_list_map_nonneg [OF this]
  show "0 \<le> sum_list (map real_of (map TotalInsuredValue (exposed_rows lib poly assets)))"
    by (simp add: comp_def)
  from sum_list_filter_le [OF nn]
  show "sum_list (map real_of (map TotalInsuredValue (exposed_rows lib poly assets)))
           \<le> sum_list (map real_of (map TotalInsuredValue assets))"
    by (simp add: comp_def exposed_rows_def)
qed

lemma ratio_within_unit:
  assumes "0 \<le> e" "e \<le> t"
    and "\<forall>x. 0 \<le> x \<and> x \<le> 1 \<longrightarrow>
           float_le (Finite 0) (round_double lib x) \<and> float_le (round_double lib x) (Finite 1)"
    and "if float_lt (Finite 0) (Finite t) then py_truediv lib (Finite e) (Finite t) = Inr ratio
         else ratio = Finite 0"
  shows "float_le (Finite 0) ratio \<and> float_le ratio (Finite 1)"
proof (cases "0 < t")
  case True
  with assms(1,2) have "0 \<le> e / t" "e / t \<le> 1" by simp_all
  with assms(3) have "float_le (Finite 0) (round_double lib (e / t)) \<and>
     float_le (round_double lib (e / t)) (Finite 1)" by blast
  moreover from True assms(4) have "ratio = round_double lib (e / t)" by simp
  ultimately show ?thesis by simp
next
  case False
  with assms(4) show ?thesis by simp
qed







subsection \<open>Evaluation of the exposure computation\<close>

lemma overflow_unit: "0 \<le> x \<Longrightarrow> x \<le> 1 \<Longrightarrow> overflow x = Finite x"
  using overflow_small [of x] by simp

lemma box_lib_rounds_unit:
  "\<forall>x. 0 \<le> x \<and> x \<le> 1 \<longrightarrow>
     float_le (Finite 0) (round_double box_lib x) \<and> float_le (round_double box_lib x) (Finite 1)"
  by (simp add: box_lib_fields overflow_unit)

lemma footprint_box:
  "x0 < x1 \<Longrightarrow> y0 < y1 \<Longrightarrow>
   parse_cone box_lib (footprint_of [(x0, y0, x1, y1)]) = Inr (footprint_of [(x0, y0, x1, y1)]) \<and>
   py_getitem (footprint_of [(x0, y0, x1, y1)]) ''geometry'' = Inr (boxes_mapping [(x0, y0, x1, y1)]) \<and>
   shape box_lib (boxes_mapping [(x0, y0, x1, y1)]) = Inr [(x0, y0, x1, y1)]"
  by (simp add: parse_cone_def footprint_of_def boxes_mapping_def box_lib_fields boxes_shape_def
      polygon_boxes_def box_of_ring_def ring_json_def point_json_def point_of_def)

lemma compute_on_box:
  assumes "set required_columns \<subseteq> set (df_columns df)" "x0 < x1" "y0 < y1"
  shows "compute_portfolio_exposure box_lib (\<lambda>p. Inr df) p (footprint_of [(x0, y0, x1, y1)]) =
         summarise box_lib p (load_assets box_lib df) [(x0, y0, x1, y1)]"
  using compute_portfolio_exposure_value
    [of "\<lambda>p. Inr df" p df box_lib "footprint_of [(x0, y0, x1, y1)]" "footprint_of [(x0, y0, x1, y1)]"
        "boxes_mapping [(x0, y0, x1, y1)]" "[(x0, y0, x1, y1)]"]
    footprint_box [OF assms(2,3)] assms(1)
  by simp

lemma load_three:
  "load_assets box_lib portfolio_three = [
     \<lparr> PropertyID = CStr ''A1'', Latitude = Finite (51 / 2), Longitude = Finite (- (161 / 2)),
       TotalInsuredValue = Finite 1000 \<rparr>,
     \<lparr> PropertyID = CStr ''A2'', Latitude = Finite 40, Longitude = Finite (- 100),
       TotalInsuredValue = Finite 2000 \<rparr>,
     \<lparr> PropertyID = CStr ''A3'', Latitude = Finite 10, Longitude = Finite 10,
       TotalInsuredValue = Finite 0 \<rparr>]"
  by (simp add: load_assets_def portfolio_three_def List.map_filter_def coerce_row_def to_numeric_def
      row_of_def Let_def)

lemma load_zero:
  "load_assets box_lib portfolio_zero = [
     \<lparr> PropertyID = CStr ''Z1'', Latitude = Finite (51 / 2), Longitude = Finite (- (161 / 2)),
       TotalInsuredValue = Finite 0 \<rparr>,
     \<lparr> PropertyID = CStr ''Z2'', Latitude = Finite 40, Longitude = Finite (- 100),
       TotalInsuredValue = Finite 0 \<rparr>]"
  by (simp add: load_assets_def portfolio_zero_def List.map_filter_def coerce_row_def to_numeric_def
      row_of_def Let_def)

lemma load_huge:
  "load_assets box_lib portfolio_huge = [
     \<lparr> PropertyID = CStr ''H1'', Latitude = Finite (51 / 2), Longitude = Finite (- (161 / 2)),
       TotalInsuredValue = Finite (2 ^ 1023) \<rparr>,
     \<lparr> PropertyID = CStr ''H2'', Latitude = Finite (103 / 4), Longitude = Finite (- (321 / 4)),
       TotalInsuredValue = Finite (2 ^ 1023) \<rparr>]"
  by (simp add: load_assets_def portfolio_huge_def List.map_filter_def coerce_row_def to_numeric_def
      row_of_def Let_def)

lemma overflow_evals:
  "overflow 0 = Finite 0"
  "overflow 1000 = Finite 1000"
  "overflow 3000 = Finite 3000"
  "overflow (1 / 3) = Finite (1 / 3)"
  using overflow_small [of 0] overflow_small [of 1000] overflow_small [of 3000]
    overflow_small [of "1 / 3"]
  by simp_all

lemma stable_argsort_one: "stable_argsort_desc [k] = [0]"
  by (simp add: stable_argsort_desc_def)

lemma summary_three:
  "summarise box_lib ''p.csv'' (load_assets box_lib portfolio_three) [(- 81, 25, - 80, 26)] =
    Inr \<lparr> portfolio_path = ''p.csv'', asset_count_total = 3, asset_count_exposed = 1,
      total_insured_value_total = Finite 3000, total_insured_value_exposed = Finite 1000,
      exposure_ratio = Finite (1 / 3),
      bounds = Some (Finite (- (161 / 2)), Finite (51 / 2), Finite (- (161 / 2)), Finite (51 / 2)),
      top_exposed = [\<lparr> PropertyID = CStr ''A1'', Latitude = Finite (51 / 2),
                        Longitude = Finite (- (161 / 2)), TotalInsuredValue = Finite 1000 \<rparr>] \<rparr>"
  unfolding load_three
  by (simp add: summarise_def exposed_rows_def Let_def box_lib_fields boxes_intersects_def
      compute_bounds_def py_sum_def py_min_def py_max_def overflow_evals stable_argsort_one)

lemma summary_zero:
  "summarise box_lib ''p.csv'' (load_assets box_lib portfolio_zero) [(- 81, 25, - 80, 26)] =
    Inr \<lparr> portfolio_path = ''p.csv'', asset_count_total = 2, asset_count_exposed = 1,
      total_insured_value_total = Finite 0, total_insured_value_exposed = Finite 0,
      exposure_ratio = Finite 0,
      bounds = Some (Finite (- (161 / 2)), Finite (51 / 2), Finite (- (161 / 2)), Finite (51 / 2)),
      top_exposed = [\<lparr> PropertyID = CStr ''Z1'', Latitude = Finite (51 / 2),
                        Longitude = Finite (- (161 / 2)), TotalInsuredValue = Finite 0 \<rparr>] \<rparr>"
  unfolding load_zero
  by (simp add: summarise_def exposed_rows_def Let_def box_lib_fields boxes_intersects_def
      compute_bounds_def py_sum_def py_min_def py_max_def overflow_evals stable_argsort_one)

lemma float_add_huge:
  "float_add (float_add (Finite 0) (Finite (2 ^ 1023))) (Finite (2 ^ 1023)) = PosInf"
  by (simp add: overflow_def DBL_OVERFLOW_def)

lemma stable_argsort_two_equal: "stable_argsort_desc [k, k] = [0, 1]"
  by (cases k) (simp_all add: stable_argsort_desc_def upt_rec)

lemma summary_huge:
  "summarise box_lib ''p.csv'' (load_assets box_lib portfolio_huge) [(- 81, 25, - 80, 26)] =
    Inr \<lparr> portfolio_path = ''p.csv'', asset_count_total = 2, asset_count_exposed = 2,
      total_insured_value_total = PosInf, total_insured_value_exposed = PosInf,
      exposure_ratio = NaN,
      bounds = Some (Finite (- (161 / 2)), Finite (51 / 2), Finite (- (321 / 4)), Finite (103 / 4)),
      top_exposed = [
        \<lparr> PropertyID = CStr ''H1'', Latitude = Finite (51 / 2), Longitude = Finite (- (161 / 2)),
          TotalInsuredValue = Finite (2 ^ 1023) \<rparr>,
        \<lparr> PropertyID = CStr ''H2'', Latitude = Finite (103 / 4), Longitude = Finite (- (321 / 4)),
          TotalInsuredValue = Finite (2 ^ 1023) \<rparr>] \<rparr>"
  unfolding load_huge
  using float_add_huge
  by (simp add: summarise_def exposed_rows_def Let_def box_lib_fields boxes_intersects_def
      compute_bounds_def py_sum_def py_min_def py_max_def stable_argsort_two_equal)







subsection \<open>Exposed value against total value\<close>

text \<open>
  C4 (amended). For every portfolio in which at least one row has numeric coordinates, and
  every footprint that parses, the computation returns a summary whose total and exposed
  values are the column sums as pandas computes them, and whose ratio is exactly 0.0 whenever
  the total is not greater than 0 (in particular when it is 0), and the float quotient of
  exposed by total otherwise: the division is guarded by \<^verbatim>\<open>tiv_total > 0\<close> and never raises.
  When every insured value is finite and not negative, both sums are computed exactly, and
  the rounding of a quotient between 0 and 1 stays between 0 and 1, the exposed value is at
  most the total value and the ratio lies between 0 and 1. Without exact sums the bounds
  can fail for non-negative values: two exposed assets insured for \<open>2 ^ 1023\<close> each give an
  infinite total, an infinite exposed value and the ratio NaN (the counterexample below).
\<close>

theorem exposure_value_bounds:
  assumes "read_csv p = Inr df"
    and "set required_columns \<subseteq> set (df_columns df)"
    and "load_assets lib df \<noteq> []"
    and "parse_cone lib cone = Inr cf"
    and "py_getitem cf ''geometry'' = Inr geom"
    and "shape lib geom = Inr poly"
  shows "\<exists>s. compute_portfolio_exposure lib read_csv p cone = Inr s \<and>
     total_insured_value_total s = py_sum lib (map TotalInsuredValue (load_assets lib df)) \<and>
     total_insured_value_exposed s =
       py_sum lib (map TotalInsuredValue (exposed_rows lib poly (load_assets lib df))) \<and>
     (total_insured_value_total s = Finite 0 \<longrightarrow> exposure_ratio s = Finite 0) \<and>
     (\<not> float_lt (Finite 0) (total_insured_value_total s) \<longrightarrow> exposure_ratio s = Finite 0) \<and>
     (float_lt (Finite 0) (total_insured_value_total s) \<longrightarrow>
        py_truediv lib (total_insured_value_exposed s) (total_insured_value_total s)
          = Inr (exposure_ratio s)) \<and>
     (list_all finite_nonneg (map TotalInsuredValue (load_assets lib df)) \<and>
      total_insured_value_total s = exact_sum (map TotalInsuredValue (load_assets lib df)) \<and>
      total_insured_value_exposed s =
        exact_sum (map TotalInsuredValue (exposed_rows lib poly (load_assets lib df))) \<and>
      (\<forall>x. 0 \<le> x \<and> x \<le> 1 \<longrightarrow>
         float_le (Finite 0) (round_double lib x) \<and> float_le (round_double lib x) (Finite 1)) \<longrightarrow>
      float_le (total_insured_value_exposed s) (total_insured_value_total s) \<and>
      float_le (Finite 0) (exposure_ratio s) \<and> float_le (exposure_ratio s) (Finite 1))"
proof -
  let ?assets = "load_assets lib df"
  let ?ex = "exposed_rows lib poly ?assets"
  let ?tot = "py_sum lib (map TotalInsuredValue ?assets)"
  let ?exp = "py_sum lib (map TotalInsuredValue ?ex)"
  from summarise_value [OF assms(3), of lib p poly] obtain ratio where
    sm: "summarise lib p ?assets poly =
       Inr \<lparr> portfolio_path = p,
             asset_count_total = length ?assets,
             asset_count_exposed = length ?ex,
             total_insured_value_total = ?tot,
             total_insured_value_exposed = ?exp,
             exposure_ratio = ratio,
             bounds = (if ?ex \<noteq> [] then compute_bounds (map Latitude ?ex) (map Longitude ?ex) else None),
             top_exposed = map (\<lambda>i. ?ex ! i) (take 10 (argsort_desc lib (map TotalInsuredValue ?ex))) \<rparr>"
    and rat: "if float_lt (Finite 0) ?tot then py_truediv lib ?exp ?tot = Inr ratio
              else ratio = Finite 0"
    by blast
  let ?s = "\<lparr> portfolio_path = p,
             asset_count_total = length ?assets,
             asset_count_exposed = length ?ex,
             total_insured_value_total = ?tot,
             total_insured_value_exposed = ?exp,
             exposure_ratio = ratio,
             bounds = (if ?ex \<noteq> [] then compute_bounds (map Latitude ?ex) (map Longitude ?ex) else None),
             top_exposed = map (\<lambda>i. ?ex ! i) (take 10 (argsort_desc lib (map TotalInsuredValue ?ex))) \<rparr>"
  have run: "compute_portfolio_exposure lib read_csv p cone = Inr ?s"
    using compute_portfolio_exposure_value [of read_csv p df lib cone cf geom poly] assms sm by simp
  have z: "?tot = Finite 0 \<longrightarrow> ratio = Finite 0"
    using rat by auto
  have n: "\<not> float_lt (Finite 0) ?tot \<longrightarrow> ratio = Finite 0"
    using rat by auto
  have d: "float_lt (Finite 0) ?tot \<longrightarrow> py_truediv lib ?exp ?tot = Inr ratio"
    using rat by auto
  have b: "float_le ?exp ?tot \<and> float_le (Finite 0) ratio \<and> float_le ratio (Finite 1)"
    if h: "list_all finite_nonneg (map TotalInsuredValue ?assets)"
      "?tot = exact_sum (map TotalInsuredValue ?assets)"
      "?exp = exact_sum (map TotalInsuredValue ?ex)"
      "\<forall>x. 0 \<le> x \<and> x \<le> 1 \<longrightarrow>
         float_le (Finite 0) (round_double lib x) \<and> float_le (round_double lib x) (Finite 1)"
  proof -
    let ?e = "sum_list (map real_of (map TotalInsuredValue ?ex))"
    let ?t = "sum_list (map real_of (map TotalInsuredValue ?assets))"
    from exact_sums_ordered [OF h(1), of lib poly] have o: "0 \<le> ?e" "?e \<le> ?t" by simp_all
    from h(2,3) have eq: "?tot = Finite ?t" "?exp = Finite ?e" by (simp_all add: exact_sum_def)
    from rat have "if float_lt (Finite 0) (Finite ?t) then py_truediv lib (Finite ?e) (Finite ?t) = Inr ratio
         else ratio = Finite 0"
      unfolding eq .
    from ratio_within_unit [OF o h(4) this] o(2) show ?thesis
      unfolding eq by simp
  qed
  show ?thesis
    apply (rule exI [of _ ?s])
    apply (intro conjI)
    apply (rule run)
    apply simp
    apply simp
    using z apply simp
    using n apply simp
    using d apply simp
    using b apply simp
    done
qed

theorem exposure_value_bounds_witness:
  "compute_portfolio_exposure box_lib (\<lambda>p. Inr portfolio_three) ''p.csv''
      (footprint_of [(- 81, 25, - 80, 26)]) =
     Inr \<lparr> portfolio_path = ''p.csv'', asset_count_total = 3, asset_count_exposed = 1,
      total_insured_value_total = Finite 3000, total_insured_value_exposed = Finite 1000,
      exposure_ratio = Finite (1 / 3),
      bounds = Some (Finite (- (161 / 2)), Finite (51 / 2), Finite (- (161 / 2)), Finite (51 / 2)),
      top_exposed = [\<lparr> PropertyID = CStr ''A1'', Latitude = Finite (51 / 2),
                        Longitude = Finite (- (161 / 2)), TotalInsuredValue = Finite 1000 \<rparr>] \<rparr> \<and>
   list_all finite_nonneg (map TotalInsuredValue (load_assets box_lib portfolio_three)) \<and>
   exact_sum (map TotalInsuredValue (load_assets box_lib portfolio_three)) = Finite 3000 \<and>
   float_le (Finite 1000) (Finite 3000) \<and>
   float_le (Finite 0) (Finite (1 / 3)) \<and> float_le (Finite (1 / 3)) (Finite 1) \<and>
   compute_portfolio_exposure box_lib (\<lambda>p. Inr portfolio_zero) ''p.csv''
      (footprint_of [(- 81, 25, - 80, 26)]) =
     Inr \<lparr> portfolio_path = ''p.csv'', asset_count_total = 2, asset_count_exposed = 1,
      total_insured_value_total = Finite 0, total_insured_value_exposed = Finite 0,
      exposure_ratio = Finite 0,
      bounds = Some (Finite (- (161 / 2)), Finite (51 / 2), Finite (- (161 / 2)), Finite (51 / 2)),
      top_exposed = [\<lparr> PropertyID = CStr ''Z1'', Latitude = Finite (51 / 2),
                        Longitude = Finite (- (161 / 2)), TotalInsuredValue = Finite 0 \<rparr>] \<rparr>"
proof -
  let ?fp = "footprint_of [(- 81, 25, - 80, 26)]"
  let ?s3 = "\<lparr> portfolio_path = ''p.csv'', asset_count_total = 3, asset_count_exposed = 1,
      total_insured_value_total = Finite 3000, total_insured_value_exposed = Finite 1000,
      exposure_ratio = Finite (1 / 3),
      bounds = Some (Finite (- (161 / 2)), Finite (51 / 2), Finite (- (161 / 2)), Finite (51 / 2)),
      top_exposed = [\<lparr> PropertyID = CStr ''A1'', Latitude = Finite (51 / 2),
                        Longitude = Finite (- (161 / 2)), TotalInsuredValue = Finite 1000 \<rparr>] \<rparr>"
  have cols: "set required_columns \<subseteq> set (df_columns portfolio_three)"
    by (simp add: required_columns_def portfolio_three_def)
  have colsz: "set required_columns \<subseteq> set (df_columns portfolio_zero)"
    by (simp add: required_columns_def portfolio_zero_def)
  have fb: "parse_cone box_lib ?fp = Inr ?fp"
    "py_getitem ?fp ''geometry'' = Inr (boxes_mapping [(- 81, 25, - 80, 26)])"
    "shape box_lib (boxes_mapping [(- 81, 25, - 80, 26)]) = Inr [(- 81, 25, - 80, 26)]"
    using footprint_box [of "- 81" "- 80" 25 26] by simp_all
  have run: "compute_portfolio_exposure box_lib (\<lambda>p. Inr portfolio_three) ''p.csv'' ?fp = Inr ?s3"
    using compute_on_box [OF cols, of "- 81" "- 80" 25 26 "''p.csv''"] summary_three by simp
  have runz: "compute_portfolio_exposure box_lib (\<lambda>p. Inr portfolio_zero) ''p.csv'' ?fp =
     Inr \<lparr> portfolio_path = ''p.csv'', asset_count_total = 2, asset_count_exposed = 1,
      total_insured_value_total = Finite 0, total_insured_value_exposed = Finite 0,
      exposure_ratio = Finite 0,
      bounds = Some (Finite (- (161 / 2)), Finite (51 / 2), Finite (- (161 / 2)), Finite (51 / 2)),
      top_exposed = [\<lparr> PropertyID = CStr ''Z1'', Latitude = Finite (51 / 2),
                        Longitude = Finite (- (161 / 2)), TotalInsuredValue = Finite 0 \<rparr>] \<rparr>"
    using compute_on_box [OF colsz, of "- 81" "- 80" 25 26 "''p.csv''"] summary_zero by simp
  have ne: "load_assets box_lib portfolio_three \<noteq> []"
    by (simp add: load_three)
  have nn: "list_all finite_nonneg (map TotalInsuredValue (load_assets box_lib portfolio_three))"
    by (simp add: load_three finite_nonneg_def)
  have et: "exact_sum (map TotalInsuredValue (load_assets box_lib portfolio_three)) = Finite 3000"
    by (simp add: load_three exact_sum_def real_of_def)
  have ee: "exact_sum (map TotalInsuredValue
       (exposed_rows box_lib [(- 81, 25, - 80, 26)] (load_assets box_lib portfolio_three))) = Finite 1000"
    by (simp add: load_three exact_sum_def real_of_def exposed_rows_def box_lib_fields
        boxes_intersects_def)
  from exposure_value_bounds
    [of "\<lambda>p. Inr portfolio_three" "''p.csv''" portfolio_three box_lib ?fp ?fp
        "boxes_mapping [(- 81, 25, - 80, 26)]" "[(- 81, 25, - 80, 26)]", OF _ cols ne fb]
  obtain s where s: "compute_portfolio_exposure box_lib (\<lambda>p. Inr portfolio_three) ''p.csv'' ?fp = Inr s"
    and b: "list_all finite_nonneg (map TotalInsuredValue (load_assets box_lib portfolio_three)) \<and>
      total_insured_value_total s = exact_sum (map TotalInsuredValue (load_assets box_lib portfolio_three)) \<and>
      total_insured_value_exposed s =
        exact_sum (map TotalInsuredValue
          (exposed_rows box_lib [(- 81, 25, - 80, 26)] (load_assets box_lib portfolio_three))) \<and>
      (\<forall>x. 0 \<le> x \<and> x \<le> 1 \<longrightarrow>
         float_le (Finite 0) (round_double box_lib x) \<and> float_le (round_double box_lib x) (Finite 1)) \<longrightarrow>
      float_le (total_insured_value_exposed s) (total_insured_value_total s) \<and>
      float_le (Finite 0) (exposure_ratio s) \<and> float_le (exposure_ratio s) (Finite 1)"
    by blast
  from s run have eq: "s = ?s3" by simp
  have "float_le (total_insured_value_exposed s) (total_insured_value_total s) \<and>
      float_le (Finite 0) (exposure_ratio s) \<and> float_le (exposure_ratio s) (Finite 1)"
    using b nn box_lib_rounds_unit et ee unfolding eq by simp
  then have "float_le (Finite 1000) (Finite 3000) \<and>
     float_le (Finite 0) (Finite (1 / 3)) \<and> float_le (Finite (1 / 3)) (Finite 1)"
    unfolding eq by simp
  with run runz nn et show ?thesis by blast
qed

theorem exposure_value_bounds_counterexample:
  "compute_portfolio_exposure box_lib (\<lambda>p. Inr portfolio_huge) ''p.csv''
      (footprint_of [(- 81, 25, - 80, 26)]) =
     Inr \<lparr> portfolio_path = ''p.csv'', asset_count_total = 2, asset_count_exposed = 2,
      total_insured_value_total = PosInf, total_insured_value_exposed = PosInf,
      exposure_ratio = NaN,
      bounds = Some (Finite (- (161 / 2)), Finite (51 / 2), Finite (- (321 / 4)), Finite (103 / 4)),
      top_exposed = [
        \<lparr> PropertyID = CStr ''H1'', Latitude = Finite (51 / 2), Longitude = Finite (- (161 / 2)),
          TotalInsuredValue = Finite (2 ^ 1023) \<rparr>,
        \<lparr> PropertyID = CStr ''H2'', Latitude = Finite (103 / 4), Longitude = Finite (- (321 / 4)),
          TotalInsuredValue = Finite (2 ^ 1023) \<rparr>] \<rparr> \<and>
   list_all finite_nonneg (map TotalInsuredValue (load_assets box_lib portfolio_huge)) \<and>
   \<not> float_le (Finite 0) NaN \<and> \<not> float_le NaN (Finite 1)"
proof -
  have cols: "set required_columns \<subseteq> set (df_columns portfolio_huge)"
    by (simp add: required_columns_def portfolio_huge_def)
  have run: "compute_portfolio_exposure box_lib (\<lambda>p. Inr portfolio_huge) ''p.csv''
      (footprint_of [(- 81, 25, - 80, 26)]) =
     Inr \<lparr> portfolio_path = ''p.csv'', asset_count_total = 2, asset_count_exposed = 2,
      total_insured_value_total = PosInf, total_insured_value_exposed = PosInf,
      exposure_ratio = NaN,
      bounds = Some (Finite (- (161 / 2)), Finite (51 / 2), Finite (- (321 / 4)), Finite (103 / 4)),
      top_exposed = [
        \<lparr> PropertyID = CStr ''H1'', Latitude = Finite (51 / 2), Longitude = Finite (- (161 / 2)),
          TotalInsuredValue = Finite (2 ^ 1023) \<rparr>,
        \<lparr> PropertyID = CStr ''H2'', Latitude = Finite (103 / 4), Longitude = Finite (- (321 / 4)),
          TotalInsuredValue = Finite (2 ^ 1023) \<rparr>] \<rparr>"
    using compute_on_box [OF cols, of "- 81" "- 80" 25 26 "''p.csv''"] summary_huge by simp
  have nn: "list_all finite_nonneg (map TotalInsuredValue (load_assets box_lib portfolio_huge))"
    by (simp add: load_huge finite_nonneg_def)
  from run nn show ?thesis by simp
qed

subsection \<open>Rows that are scored\<close>




end
